theory Spec2Isabelle
  imports Main "HOL-Library.AList"
begin

section \<open>Values, element records and caches\<close>

text \<open>
  An attribute value of an element record is a JavaScript boolean or a JavaScript string
  (the interface \<open>UIHierarchy\<close> of \<open>types.ts\<close>, restricted to the values the
  flattener produces); the expected values of a match condition are of the same kind.
  Strict equality \<open>===\<close> on such values is equality of the datatype: a boolean
  never equals a string. Other JavaScript values (\<open>undefined\<close> as an explicit
  condition value, numbers, objects) are outside this model.

  A JavaScript object with string keys is an association list: \<open>map_of obj key\<close> reads
  the property \<open>obj[key]\<close> (\<open>None\<close> is \<open>undefined\<close>), \<open>AList.update key v obj\<close> is
  the assignment \<open>obj[key] = v\<close>, and the list itself is \<open>Object.entries(obj)\<close>.
  Property names are taken to be ordinary names (not \<open>__proto__\<close> or a member of
  \<open>Object.prototype\<close>).
\<close>

datatype jsval = JBool bool | JStr string

type_synonym UIHierarchy = "(string \<times> jsval) list"

text \<open>
  The numbers \<open>parseInt\<close> can return on a string of decimal digits: \<open>Num n\<close> is
  the double whose value is the integer \<open>n\<close>; \<open>Approximation n\<close> stands for the
  double an implementation returns for a digit string of more than 20 significant
  digits denoting \<open>n\<close>, where the language standard lets the implementation replace
  the digits after the 20th by zeros before rounding.
\<close>

datatype jsnumber = Num nat | Approximation nat

record resolution =
  width :: jsnumber
  height :: jsnumber

text \<open>The class \<open>CacheManagement\<close>: four nullable fields, all initially \<open>null\<close>.\<close>

record CacheManagement =
  cachedScreenHierarchy :: "UIHierarchy list option"
  cachedElement :: "UIHierarchy option"
  cachedScreenResolution :: "resolution option"
  currentActivity :: "string option"

text \<open>The class \<open>Screen extends CacheManagement\<close> adds the device identifier.\<close>

record Screen = CacheManagement +
  deviceId :: string

definition newScreen :: "string \<Rightarrow> Screen" where
  "newScreen d = \<lparr>cachedScreenHierarchy = None, cachedElement = None,
     cachedScreenResolution = None, currentActivity = None, deviceId = d\<rparr>"

section \<open>The outside world: transport, markup parser, file system\<close>

datatype error = COMMAND_FAILED string | ParseError string | TypeError | WriteError

text \<open>
  What \<open>xml2js\<close> hands to \<open>extractNodes\<close>: of a parsed node only \<open>node['$']\<close> (the
  attribute object, absent when the tag has no attribute) and \<open>node.node\<close> (the array
  of the child tags named \<open>node\<close>, absent when there is none) are read. The parsed
  document is an object with one property, named after the root tag.
\<close>

datatype xnode = XNode "(string \<times> string) list option" "xnode list option"

type_synonym xdoc = "(string \<times> xnode) list"

datatype file_content = XmlFile string | JsonFile "UIHierarchy list"

text \<open>
  \<open>ADBShell\<close> is the raw transport (it resolves with the trimmed output or rejects),
  \<open>parseStringPromise\<close> the markup parser, \<open>writable\<close> says whether
  \<open>fs.writeFileSync\<close> succeeds on a path. \<open>issued\<close> logs every command sent to the
  device, \<open>files\<close> holds what has been written.
\<close>

record world =
  ADBShell :: "string \<Rightarrow> error + string"
  parseStringPromise :: "string \<Rightarrow> error + xdoc"
  writable :: "string \<Rightarrow> bool"
  issued :: "string list"
  files :: "string \<Rightarrow> file_content option"

definition execCommand :: "string \<Rightarrow> world \<Rightarrow> (error + string) \<times> world" where
  "execCommand command w = (ADBShell w command, w\<lparr>issued := issued w @ [command]\<rparr>)"

definition writeFileSync :: "string \<Rightarrow> file_content \<Rightarrow> world \<Rightarrow> error + world" where
  "writeFileSync path content w =
     (if writable w path then Inr (w\<lparr>files := (files w)(path \<mapsto> content)\<rparr>)
      else Inl WriteError)"

text \<open>\<open>if (outputFilePath) fs.writeFileSync(...)\<close>: the empty string is falsy.\<close>

definition writeIfPath :: "string option \<Rightarrow> file_content \<Rightarrow> world \<Rightarrow> error + world" where
  "writeIfPath outputFilePath content w =
     (case outputFilePath of
        None \<Rightarrow> Inr w
      | Some path \<Rightarrow> if path = [] then Inr w else writeFileSync path content w)"

section \<open>Tree flattener\<close>

text \<open>\<open>value === "false" ? false : value === "true" ? true : value\<close>\<close>

definition coerce :: "string \<Rightarrow> jsval" where
  "coerce value =
     (if value = ''false'' then JBool False
      else if value = ''true'' then JBool True
      else JStr value)"

text \<open>
  The loop \<open>for (const [key, value] of Object.entries(node['$'])) element[key] = ...\<close>
  starting from the empty object.
\<close>

definition elementOf :: "(string \<times> string) list \<Rightarrow> UIHierarchy" where
  "elementOf entries =
     fold (\<lambda>(key, value) element. AList.update key (coerce value) element) entries []"

text \<open>
  \<open>extractNodes\<close> pushes onto the array \<open>elements\<close> of the enclosing call; the array
  is passed in and returned.
\<close>

fun extractNodes :: "xnode \<Rightarrow> UIHierarchy list \<Rightarrow> UIHierarchy list" where
  "extractNodes (XNode dollar nodes) elements =
     (let elements1 =
        (case dollar of
           None \<Rightarrow> elements
         | Some entries \<Rightarrow> elements @ [elementOf entries])
      in case nodes of
           None \<Rightarrow> elements1
         | Some childNodes \<Rightarrow> fold extractNodes childNodes elements1)"

section \<open>Screen: hierarchy, element search, resolution\<close>

datatype outputFormat = JSON | XML

datatype hierarchy_result = Elements "UIHierarchy list" | Markup string

definition getScreenHierarchy ::
  "outputFormat \<Rightarrow> string option \<Rightarrow> Screen \<times> world \<Rightarrow>
     (error + hierarchy_result) \<times> Screen \<times> world" where
  "getScreenHierarchy outputFormat outputFilePath sw =
     (let (this, w) = sw in
      case cachedScreenHierarchy this of
        Some cached \<Rightarrow> (Inr (Elements cached), this, w)
      | None \<Rightarrow>
         (case execCommand (''adb -s '' @ deviceId this @ '' exec-out uiautomator dump /dev/tty'') w of
            (Inl e, w1) \<Rightarrow> (Inl e, this, w1)
          | (Inr hierarchyXML, w1) \<Rightarrow>
              if outputFormat = XML then
                (case writeIfPath outputFilePath (XmlFile hierarchyXML) w1 of
                   Inl e \<Rightarrow> (Inl e, this, w1)
                 | Inr w2 \<Rightarrow> (Inr (Markup hierarchyXML), this, w2))
              else
                (case parseStringPromise w1 hierarchyXML of
                   Inl e \<Rightarrow> (Inl e, this, w1)
                 | Inr hierarchyJSON \<Rightarrow>
                    (case map_of hierarchyJSON ''hierarchy'' of
                       None \<Rightarrow> (Inl TypeError, this, w1)
                     | Some rootNode \<Rightarrow>
                        (let elements = extractNodes rootNode [] in
                         case writeIfPath outputFilePath (JsonFile elements) w1 of
                           Inl e \<Rightarrow> (Inl e, this, w1)
                         | Inr w2 \<Rightarrow>
                            (Inr (Elements elements),
                             this\<lparr>cachedScreenHierarchy := Some elements\<rparr>, w2))))))"

text \<open>
  \<open>isMatching\<close>: the loop over \<open>Object.entries(conditions)\<close> with its early
  \<open>return false\<close> when \<open>element[key] !== value\<close>; a missing key reads as
  \<open>undefined\<close>, which differs from every boolean and string.
\<close>

fun isMatching :: "(string \<times> jsval) list \<Rightarrow> UIHierarchy \<Rightarrow> bool" where
  "isMatching [] element = True"
| "isMatching ((key, value) # rest) element =
     (if map_of element key \<noteq> Some value then False else isMatching rest element)"

text \<open>
  JavaScript truthiness of a boolean or a string: \<open>false\<close> and the empty string
  are falsy. \<open>applyAttributesFilter\<close> copies \<open>element[attr]\<close> when
  \<open>if (element[attr])\<close> holds; a missing key reads as \<open>undefined\<close>, falsy too.
  An attribute list that is given is truthy even when empty.
\<close>

fun truthy :: "jsval \<Rightarrow> bool" where
  "truthy (JBool b) = b"
| "truthy (JStr s) = (s \<noteq> [])"

definition applyAttributesFilter :: "string list option \<Rightarrow> UIHierarchy \<Rightarrow> UIHierarchy" where
  "applyAttributesFilter attributes element =
     (case attributes of
        None \<Rightarrow> element
      | Some attrs \<Rightarrow>
          fold (\<lambda>attr filteredElement.
                  case map_of element attr of
                    None \<Rightarrow> filteredElement
                  | Some v \<Rightarrow> if truthy v then AList.update attr v filteredElement
                             else filteredElement)
               attrs [])"

text \<open>The three shapes of \<open>UIHierarchy | UIHierarchy[] | null\<close>.\<close>

datatype match_result = NoMatch | Single UIHierarchy | Multiple "UIHierarchy list"

definition findElement ::
  "(string \<times> jsval) list \<Rightarrow> UIHierarchy list option \<Rightarrow> string list option \<Rightarrow>
     Screen \<times> world \<Rightarrow> (error + match_result) \<times> Screen \<times> world" where
  "findElement conditions screenHierarchyJSON attributes sw =
     (let (this, w) = sw in
      case cachedElement this of
        Some cached \<Rightarrow> (Inr (Single cached), this, w)
      | None \<Rightarrow>
         (case (case screenHierarchyJSON of
                  Some h \<Rightarrow> (Inr (Elements h), this, w)
                | None \<Rightarrow> getScreenHierarchy JSON None (this, w)) of
            (Inl e, this1, w1) \<Rightarrow> (Inl e, this1, w1)
          | (Inr (Markup x), this1, w1) \<Rightarrow> (Inl TypeError, this1, w1)
          | (Inr (Elements elements), this1, w1) \<Rightarrow>
             (let matchedElements = filter (isMatching conditions) elements in
              if length matchedElements = 0 then (Inr NoMatch, this1, w1)
              else
                (let result = map (applyAttributesFilter attributes) matchedElements in
                 if length result = 1 then
                   (Inr (Single (result ! 0)), this1\<lparr>cachedElement := Some (result ! 0)\<rparr>, w1)
                 else (Inr (Multiple result), this1, w1)))))"

subsection \<open>Resolution\<close>

text \<open>
  \<open>resolutionString.match(/(\d+)x(\d+)/)\<close>. \<open>matchHere\<close> is the pattern anchored at
  the start of its argument: a greedy run of digits, the letter x, a greedy run of
  digits (giving back digits of the first run cannot help, since the next character
  must be x). \<open>matchResolution\<close> tries every start position from the left, as the
  regular expression engine does.
\<close>

definition isDigit :: "char \<Rightarrow> bool" where
  "isDigit c = (c \<in> set ''0123456789'')"

definition matchHere :: "string \<Rightarrow> (string \<times> string) option" where
  "matchHere s =
     (let m1 = takeWhile isDigit s in
      if m1 = [] then None
      else case dropWhile isDigit s of
             [] \<Rightarrow> None
           | c # r \<Rightarrow>
               if c = CHR ''x'' then
                 (let m2 = takeWhile isDigit r in if m2 = [] then None else Some (m1, m2))
               else None)"

fun matchResolution :: "string \<Rightarrow> (string \<times> string) option" where
  "matchResolution [] = None"
| "matchResolution (c # s) =
     (case matchHere (c # s) of
        Some m \<Rightarrow> Some m
      | None \<Rightarrow> matchResolution s)"

text \<open>
  \<open>parseInt(s, 10)\<close> on a non-empty string of digits. \<open>decimalValue\<close> is the
  integer the digits denote. The result is the double nearest to it, ties to even:
  \<open>toNumber\<close> keeps the 53 leading bits (\<open>roundingExponent\<close> counts the bits
  beyond them) and rounds the rest, so integers below \<open>2^53\<close> are returned as they
  are and larger ones are rounded. Up to 20 significant digits, that is below
  \<open>10^20\<close>, the standard fixes this result; beyond, see \<open>Approximation\<close>.
\<close>

definition decimalValue :: "string \<Rightarrow> nat" where
  "decimalValue s = foldl (\<lambda>n c. 10 * n + (of_char c - 48)) 0 s"

function roundingExponent :: "nat \<Rightarrow> nat" where
  "roundingExponent n = (if n < 2 ^ 53 then 0 else Suc (roundingExponent (n div 2)))"
  by pat_completeness auto
termination
  by (relation "measure (\<lambda>n. n)") auto

declare roundingExponent.simps [simp del]

definition toNumber :: "nat \<Rightarrow> nat" where
  "toNumber n =
     (let e = roundingExponent n; q = n div 2 ^ e; r = n mod 2 ^ e in
      if e = 0 then n
      else if 2 ^ (e - 1) < r \<or> (r = 2 ^ (e - 1) \<and> odd q) then (q + 1) * 2 ^ e
      else q * 2 ^ e)"

definition parseInt_digits :: "string \<Rightarrow> jsnumber" where
  "parseInt_digits s =
     (let mathInt = decimalValue s in
      if mathInt < 10 ^ 20 then Num (toNumber mathInt) else Approximation mathInt)"

definition getScreenResolution ::
  "Screen \<times> world \<Rightarrow> resolution option \<times> Screen \<times> world" where
  "getScreenResolution sw =
     (let (this, w) = sw in
      case cachedScreenResolution this of
        Some cached \<Rightarrow> (Some cached, this, w)
      | None \<Rightarrow>
         (case execCommand (''adb -s '' @ deviceId this @ '' shell wm size'') w of
            (Inl e, w1) \<Rightarrow> (None, this, w1)
          | (Inr resolutionString, w1) \<Rightarrow>
             (case matchResolution resolutionString of
                Some (m1, m2) \<Rightarrow>
                  (let r = \<lparr>width = parseInt_digits m1, height = parseInt_digits m2\<rparr> in
                   (Some r, this\<lparr>cachedScreenResolution := Some r\<rparr>, w1))
              | None \<Rightarrow> (None, this, w1))))"

section \<open>Attribute-flag queries\<close>

text \<open>
  The class \<open>UIAttributes extends CacheManagement\<close> has its own copy of the four
  cache fields and its own \<open>deviceId\<close>. \<open>ADBHelper\<close> builds one \<open>Screen\<close> and
  one \<open>UIAttributes\<close> object for a device (its other members are not modelled);
  the two objects share no field.
\<close>

record UIAttributes = CacheManagement +
  deviceId :: string

definition newUIAttributes :: "string \<Rightarrow> UIAttributes" where
  "newUIAttributes d = \<lparr>cachedScreenHierarchy = None, cachedElement = None,
     cachedScreenResolution = None, currentActivity = None, deviceId = d\<rparr>"

record ADBHelper =
  screen :: Screen
  uiAttributes :: UIAttributes

definition newADBHelper :: "string \<Rightarrow> ADBHelper" where
  "newADBHelper d = \<lparr>screen = newScreen d, uiAttributes = newUIAttributes d\<rparr>"

text \<open>
  \<open>checkAttribute\<close> of \<open>UIAttributes\<close>. It reads only the
  field \<open>cachedElement\<close> of its object, so it is stated for every extension of
  \<open>CacheManagement\<close>. An absent, \<open>undefined\<close> or \<open>null\<close> argument is \<open>None\<close>,
  and \<open>x == null\<close> and \<open>x == undefined\<close> both test for that. The condition keeps
  the source's three disjuncts (\<open>&&\<close> binds tighter than \<open>||\<close>).
\<close>

definition checkAttribute ::
  "'a CacheManagement_scheme \<Rightarrow> string \<Rightarrow> UIHierarchy option \<Rightarrow> bool option" where
  "checkAttribute this attribute element =
     (if cachedElement this = None \<or> cachedElement this = None \<and> element = None
         \<or> element = None
      then None
      else case (case element of Some e \<Rightarrow> Some e | None \<Rightarrow> cachedElement this) of
             None \<Rightarrow> None
           | Some elementToCheck \<Rightarrow>
               if map_of elementToCheck attribute \<noteq> None
               then Some (map_of elementToCheck attribute = Some (JBool True))
               else None)"

definition isCheckable :: "'a CacheManagement_scheme \<Rightarrow> UIHierarchy option \<Rightarrow> bool option" where
  "isCheckable this element = checkAttribute this ''checkable'' element"

definition checkChecked :: "'a CacheManagement_scheme \<Rightarrow> UIHierarchy option \<Rightarrow> bool option" where
  "checkChecked this element = checkAttribute this ''checked'' element"

definition isClickable :: "'a CacheManagement_scheme \<Rightarrow> UIHierarchy option \<Rightarrow> bool option" where
  "isClickable this element = checkAttribute this ''clickable'' element"

definition isEnabled :: "'a CacheManagement_scheme \<Rightarrow> UIHierarchy option \<Rightarrow> bool option" where
  "isEnabled this element = checkAttribute this ''enabled'' element"

definition isFocusable :: "'a CacheManagement_scheme \<Rightarrow> UIHierarchy option \<Rightarrow> bool option" where
  "isFocusable this element = checkAttribute this ''focusable'' element"

definition isFocused :: "'a CacheManagement_scheme \<Rightarrow> UIHierarchy option \<Rightarrow> bool option" where
  "isFocused this element = checkAttribute this ''focused'' element"

definition isScrollable :: "'a CacheManagement_scheme \<Rightarrow> UIHierarchy option \<Rightarrow> bool option" where
  "isScrollable this element = checkAttribute this ''scrollable'' element"

definition isLongClickable :: "'a CacheManagement_scheme \<Rightarrow> UIHierarchy option \<Rightarrow> bool option" where
  "isLongClickable this element = checkAttribute this ''long-clickable'' element"

definition isPassword :: "'a CacheManagement_scheme \<Rightarrow> UIHierarchy option \<Rightarrow> bool option" where
  "isPassword this element = checkAttribute this ''password'' element"

definition isSelected :: "'a CacheManagement_scheme \<Rightarrow> UIHierarchy option \<Rightarrow> bool option" where
  "isSelected this element = checkAttribute this ''selected'' element"

section \<open>Reference definitions and example data\<close>

text \<open>
  The flattening as the specification words it: a pre-order traversal in which a node
  that carries attributes contributes its record before the records of its children,
  and a node without attributes contributes none.
\<close>

fun preorder_records :: "xnode \<Rightarrow> UIHierarchy list" where
  "preorder_records (XNode None None) = []"
| "preorder_records (XNode (Some entries) None) = [elementOf entries]"
| "preorder_records (XNode None (Some childNodes)) = concat (map preorder_records childNodes)"
| "preorder_records (XNode (Some entries) (Some childNodes)) =
     elementOf entries # concat (map preorder_records childNodes)"

text \<open>
  The attribute objects of the nodes that carry attributes, in pre-order: the \<open>i\<close>-th
  of them is the source of the \<open>i\<close>-th record of the hierarchy.
\<close>

fun attribute_lists :: "xnode \<Rightarrow> (string \<times> string) list list" where
  "attribute_lists (XNode None None) = []"
| "attribute_lists (XNode (Some entries) None) = [entries]"
| "attribute_lists (XNode None (Some childNodes)) = concat (map attribute_lists childNodes)"
| "attribute_lists (XNode (Some entries) (Some childNodes)) =
     entries # concat (map attribute_lists childNodes)"

text \<open>
  A small screen: the root tag with its \<open>rotation\<close> attribute and two buttons, and
  a device that answers the hierarchy dump and the size query.
\<close>

definition btn1 :: UIHierarchy where
  "btn1 = [(''resourceId'', JStr ''btn1''), (''clickable'', JBool True)]"

definition btn2 :: UIHierarchy where
  "btn2 = [(''resourceId'', JStr ''btn2''), (''clickable'', JBool False)]"

definition demoRoot :: xnode where
  "demoRoot =
     XNode (Some [(''rotation'', ''0'')])
       (Some [XNode (Some [(''resourceId'', ''btn1''), (''clickable'', ''true'')]) None,
              XNode (Some [(''resourceId'', ''btn2''), (''clickable'', ''false'')]) None])"

definition demoWorld :: world where
  "demoWorld =
     \<lparr>ADBShell = (\<lambda>command.
        if command = ''adb -s emu exec-out uiautomator dump /dev/tty'' then Inr ''<dump>''
        else if command = ''adb -s emu shell wm size'' then Inr ''Physical size: 1080x2400''
        else Inl (COMMAND_FAILED command)),
      parseStringPromise = (\<lambda>text.
        if text = ''<dump>'' then Inr [(''hierarchy'', demoRoot)] else Inl (ParseError text)),
      writable = (\<lambda>path. True),
      issued = [],
      files = (\<lambda>path. None)\<rparr>"

text \<open>A device that cannot be reached.\<close>

definition deadWorld :: world where
  "deadWorld =
     \<lparr>ADBShell = (\<lambda>command. Inl (COMMAND_FAILED command)),
      parseStringPromise = (\<lambda>text. Inl (ParseError text)),
      writable = (\<lambda>path. True),
      issued = [],
      files = (\<lambda>path. None)\<rparr>"

section \<open>Auxiliary facts\<close>

lemma isMatching_iff:
  "isMatching conditions element \<longleftrightarrow>
     (\<forall>(key, value) \<in> set conditions. map_of element key = Some value)"
  by (induction conditions) (auto split: if_splits)

lemma isMatching_fun:
  "isMatching conditions =
     (\<lambda>element. \<forall>(key, value) \<in> set conditions. map_of element key = Some value)"
  by (rule ext) (rule isMatching_iff)

lemma map_of_fold_update:
  "map_of (fold (\<lambda>(key, value) element. AList.update key (f value) element) entries acc) k =
     (case map_of (rev entries) k of None \<Rightarrow> map_of acc k | Some v \<Rightarrow> Some (f v))"
proof (induction entries arbitrary: acc)
  case Nil
  then show ?case by simp
next
  case (Cons e entries)
  obtain key v where e: "e = (key, v)" by (cases e)
  show ?case
    by (simp add: e Cons.IH update_conv' map_add_def split: option.splits)
qed

lemma map_of_rev_distinct:
  "distinct (map fst xs) \<Longrightarrow> map_of (rev xs) = map_of xs"
  by (rule map_of_inject_set[THEN iffD2]) (simp_all add: distinct_rev rev_map[symmetric])

lemma map_of_elementOf:
  "distinct (map fst entries) \<Longrightarrow>
   map_of (elementOf entries) key = map_option coerce (map_of entries key)"
  unfolding elementOf_def
  by (simp only: map_of_fold_update map_of_rev_distinct) (simp split: option.splits)

lemma fold_extractNodes:
  assumes "\<And>c acc. c \<in> set cs \<Longrightarrow> extractNodes c acc = acc @ preorder_records c"
  shows "fold extractNodes cs acc = acc @ concat (map preorder_records cs)"
  using assms
proof (induction cs arbitrary: acc)
  case Nil
  then show ?case by simp
next
  case (Cons c cs)
  then show ?case by simp
qed

lemma extractNodes_acc:
  "extractNodes node elements = elements @ preorder_records node"
proof (induction node elements rule: extractNodes.induct)
  case (1 dollar nodes elements)
  show ?case
  proof (cases nodes)
    case None
    then show ?thesis by (cases dollar) simp_all
  next
    case (Some cs)
    have ih: "\<And>c acc. c \<in> set cs \<Longrightarrow> extractNodes c acc = acc @ preorder_records c"
      using "1.IH" Some by blast
    show ?thesis
      using Some fold_extractNodes[OF ih] by (cases dollar) simp_all
  qed
qed

lemma extractNodes_empty: "extractNodes node [] = preorder_records node"
  using extractNodes_acc[of node "[]"] by simp

lemma map_of_projection_fold:
  "map_of (fold (\<lambda>attr filteredElement.
                  case map_of element attr of
                    None \<Rightarrow> filteredElement
                  | Some v \<Rightarrow> if truthy v then AList.update attr v filteredElement
                             else filteredElement) attrs acc) k =
     (if k \<in> set attrs \<and> (\<exists>v. map_of element k = Some v \<and> truthy v)
      then map_of element k else map_of acc k)"
  by (induction attrs arbitrary: acc) (auto simp: update_conv' split: option.splits)

lemma map_of_applyAttributesFilter:
  "map_of (applyAttributesFilter (Some attrs) element) k =
     (if k \<in> set attrs \<and> (\<exists>v. map_of element k = Some v \<and> truthy v)
      then map_of element k else None)"
  by (auto simp: applyAttributesFilter_def map_of_projection_fold)

lemma keys_applyAttributesFilter:
  "fst ` set (applyAttributesFilter (Some attrs) element) \<subseteq> set attrs"
proof
  fix k assume "k \<in> fst ` set (applyAttributesFilter (Some attrs) element)"
  then have "map_of (applyAttributesFilter (Some attrs) element) k \<noteq> None"
    by (simp add: map_of_eq_None_iff)
  then show "k \<in> set attrs"
    by (simp add: map_of_applyAttributesFilter split: if_splits)
qed

lemma applyAttributesFilter_None: "applyAttributesFilter None = (\<lambda>element. element)"
  by (rule ext) (simp add: applyAttributesFilter_def)

lemma findElement_hit:
  "cachedElement this = Some cached \<Longrightarrow>
   findElement conditions screenHierarchyJSON attributes (this, w) =
     (Inr (Single cached), this, w)"
  by (simp add: findElement_def)

lemma getScreenHierarchy_hit:
  "cachedScreenHierarchy this = Some cached \<Longrightarrow>
   getScreenHierarchy outputFormat outputFilePath (this, w) = (Inr (Elements cached), this, w)"
  by (simp add: getScreenHierarchy_def)

lemma getScreenHierarchy_cachedElement:
  "getScreenHierarchy outputFormat outputFilePath (this, w) = (r, this1, w1) \<Longrightarrow>
   cachedElement this1 = cachedElement this"
  by (auto simp: getScreenHierarchy_def Let_def execCommand_def
      split: option.splits sum.splits if_splits prod.splits)

lemma findElement_supplied:
  "cachedElement this = None \<Longrightarrow>
   findElement conditions (Some elements) attributes (this, w) =
     (let result = map (applyAttributesFilter attributes) (filter (isMatching conditions) elements) in
      if result = [] then (Inr NoMatch, this, w)
      else if length result = 1 then
        (Inr (Single (result ! 0)), this\<lparr>cachedElement := Some (result ! 0)\<rparr>, w)
      else (Inr (Multiple result), this, w))"
  by (simp add: findElement_def Let_def)

lemma findElement_fetched:
  "cachedElement this = None \<Longrightarrow>
   getScreenHierarchy JSON None (this, w) = (Inr (Elements elements), this1, w1) \<Longrightarrow>
   findElement conditions None attributes (this, w) =
     (let result = map (applyAttributesFilter attributes) (filter (isMatching conditions) elements) in
      if result = [] then (Inr NoMatch, this1, w1)
      else if length result = 1 then
        (Inr (Single (result ! 0)), this1\<lparr>cachedElement := Some (result ! 0)\<rparr>, w1)
      else (Inr (Multiple result), this1, w1))"
  by (simp add: findElement_def Let_def)

lemma findElement_miss:
  assumes "cachedElement this = None"
    and "screenHierarchyJSON = Some elements \<and> this1 = this \<and> w1 = w \<or>
         screenHierarchyJSON = None \<and>
           getScreenHierarchy JSON None (this, w) = (Inr (Elements elements), this1, w1)"
  shows "findElement conditions screenHierarchyJSON attributes (this, w) =
     (let result = map (applyAttributesFilter attributes) (filter (isMatching conditions) elements) in
      if result = [] then (Inr NoMatch, this1, w1)
      else if length result = 1 then
        (Inr (Single (result ! 0)), this1\<lparr>cachedElement := Some (result ! 0)\<rparr>, w1)
      else (Inr (Multiple result), this1, w1))"
  using assms(2)
proof
  assume "screenHierarchyJSON = Some elements \<and> this1 = this \<and> w1 = w"
  then show ?thesis using findElement_supplied[OF assms(1)] by (simp add: Let_def)
next
  assume "screenHierarchyJSON = None \<and>
           getScreenHierarchy JSON None (this, w) = (Inr (Elements elements), this1, w1)"
  then show ?thesis using findElement_fetched[OF assms(1)] by (simp add: Let_def)
qed

text \<open>The example device, queried on an empty hierarchy cache.\<close>

lemma demo_getScreenHierarchy:
  "getScreenHierarchy JSON None (newScreen ''emu'', demoWorld) =
     (Inr (Elements [[(''rotation'', JStr ''0'')], btn1, btn2]),
      (newScreen ''emu'')\<lparr>cachedScreenHierarchy := Some [[(''rotation'', JStr ''0'')], btn1, btn2]\<rparr>,
      demoWorld\<lparr>issued := [''adb -s emu exec-out uiautomator dump /dev/tty'']\<rparr>)"
  by (simp add: getScreenHierarchy_def newScreen_def demoWorld_def execCommand_def
      writeIfPath_def demoRoot_def elementOf_def coerce_def btn1_def btn2_def Let_def)

section \<open>Element matching\<close>

text \<open>
  C1. On an empty element cache, for a hierarchy supplied by the caller or fetched by
  \<open>getScreenHierarchy('JSON')\<close>, \<open>findElement\<close> retains exactly the records in which
  every key of the condition is present with a value strictly equal to the expected one:
  its result is built from that sublist of the hierarchy, in order (each record passed
  through the projection, which is the identity when no attribute list is given).
  A record that lacks a key of the condition is not retained, and the empty condition
  retains the whole hierarchy.
\<close>

theorem findElement_retains_exact_matches:
  assumes "cachedElement this = None"
    and "screenHierarchyJSON = Some elements \<and> this1 = this \<and> w1 = w \<or>
         screenHierarchyJSON = None \<and>
           getScreenHierarchy JSON None (this, w) = (Inr (Elements elements), this1, w1)"
    and "retained = filter (\<lambda>element. \<forall>(key, value) \<in> set conditions.
                                map_of element key = Some value) elements"
  shows "fst (findElement conditions screenHierarchyJSON attributes (this, w)) =
           Inr (case map (applyAttributesFilter attributes) retained of
                  [] \<Rightarrow> NoMatch
                | [element] \<Rightarrow> Single element
                | element # others \<Rightarrow> Multiple (map (applyAttributesFilter attributes) retained))
       \<and> fst (findElement conditions screenHierarchyJSON None (this, w)) =
           Inr (case retained of
                  [] \<Rightarrow> NoMatch
                | [element] \<Rightarrow> Single element
                | element # others \<Rightarrow> Multiple retained)
       \<and> (\<forall>element key value. (key, value) \<in> set conditions \<and> map_of element key = None
             \<longrightarrow> element \<notin> set retained)
       \<and> (conditions = [] \<longrightarrow> retained = elements)"
proof -
  have r: "retained = filter (isMatching conditions) elements"
    using assms(3) by (simp add: isMatching_fun)
  have general: "fst (findElement conditions screenHierarchyJSON attrs (this, w)) =
           Inr (case map (applyAttributesFilter attrs) retained of
                  [] \<Rightarrow> NoMatch
                | [element] \<Rightarrow> Single element
                | element # others \<Rightarrow> Multiple (map (applyAttributesFilter attrs) retained))"
    for attrs
    unfolding findElement_miss[OF assms(1,2)] r[symmetric]
    by (cases retained rule: list.exhaust; cases "tl retained") (auto simp: Let_def)
  have none: "map (applyAttributesFilter None) retained = retained"
    by (simp add: applyAttributesFilter_None)
  have excl: "\<forall>element key value. (key, value) \<in> set conditions \<and> map_of element key = None
             \<longrightarrow> element \<notin> set retained"
    using assms(3) by fastforce
  have empty: "conditions = [] \<longrightarrow> retained = elements"
    using assms(3) by simp
  show ?thesis
    using general[of attributes] general[of None] excl empty unfolding none by blast
qed

theorem findElement_retains_exact_matches_witness:
  "cachedElement (newScreen ''emu'') = None
   \<and> fst (findElement [(''clickable'', JBool True)] (Some [btn1, btn2]) None
            (newScreen ''emu'', deadWorld)) = Inr (Single btn1)
   \<and> fst (findElement [(''clickable'', JStr ''true'')] (Some [btn1, btn2]) None
            (newScreen ''emu'', deadWorld)) = Inr NoMatch
   \<and> fst (findElement [(''text'', JStr ''OK'')] (Some [btn1, btn2]) None
            (newScreen ''emu'', deadWorld)) = Inr NoMatch
   \<and> fst (findElement [] (Some [btn1, btn2]) None
            (newScreen ''emu'', deadWorld)) = Inr (Multiple [btn1, btn2])
   \<and> fst (findElement [(''resourceId'', JStr ''btn2'')] None None
            (newScreen ''emu'', demoWorld)) = Inr (Single btn2)"
proof -
  have c: "cachedElement (newScreen ''emu'') = None"
    by (simp add: newScreen_def)
  have s: "Some [btn1, btn2] = Some [btn1, btn2] \<and> newScreen ''emu'' = newScreen ''emu''
        \<and> deadWorld = deadWorld \<or>
      Some [btn1, btn2] = None \<and>
        getScreenHierarchy JSON None (newScreen ''emu'', deadWorld) =
          (Inr (Elements [btn1, btn2]), newScreen ''emu'', deadWorld)"
    by simp
  have f: "None = Some [[(''rotation'', JStr ''0'')], btn1, btn2]
        \<and> (newScreen ''emu'')\<lparr>cachedScreenHierarchy :=
              Some [[(''rotation'', JStr ''0'')], btn1, btn2]\<rparr> = newScreen ''emu''
        \<and> demoWorld\<lparr>issued := [''adb -s emu exec-out uiautomator dump /dev/tty'']\<rparr> = demoWorld \<or>
      None = None \<and>
        getScreenHierarchy JSON None (newScreen ''emu'', demoWorld) =
          (Inr (Elements [[(''rotation'', JStr ''0'')], btn1, btn2]),
           (newScreen ''emu'')\<lparr>cachedScreenHierarchy :=
              Some [[(''rotation'', JStr ''0'')], btn1, btn2]\<rparr>,
           demoWorld\<lparr>issued := [''adb -s emu exec-out uiautomator dump /dev/tty'']\<rparr>)"
    using demo_getScreenHierarchy by simp
  have 1: "fst (findElement [(''clickable'', JBool True)] (Some [btn1, btn2]) None
            (newScreen ''emu'', deadWorld)) = Inr (Single btn1)"
    using findElement_retains_exact_matches[OF c s,
        where retained = "[btn1]" and conditions = "[(''clickable'', JBool True)]"
          and attributes = None]
    by (simp add: btn1_def btn2_def applyAttributesFilter_None)
  have 2: "fst (findElement [(''clickable'', JStr ''true'')] (Some [btn1, btn2]) None
            (newScreen ''emu'', deadWorld)) = Inr NoMatch"
    using findElement_retains_exact_matches[OF c s,
        where retained = "[]" and conditions = "[(''clickable'', JStr ''true'')]"
          and attributes = None]
    by (simp add: btn1_def btn2_def applyAttributesFilter_None)
  have 3: "fst (findElement [(''text'', JStr ''OK'')] (Some [btn1, btn2]) None
            (newScreen ''emu'', deadWorld)) = Inr NoMatch"
    using findElement_retains_exact_matches[OF c s,
        where retained = "[]" and conditions = "[(''text'', JStr ''OK'')]"
          and attributes = None]
    by (simp add: btn1_def btn2_def applyAttributesFilter_None)
  have 4: "fst (findElement [] (Some [btn1, btn2]) None
            (newScreen ''emu'', deadWorld)) = Inr (Multiple [btn1, btn2])"
    using findElement_retains_exact_matches[OF c s,
        where retained = "[btn1, btn2]" and conditions = "[]"
          and attributes = None]
    by (simp add: applyAttributesFilter_None)
  have 5: "fst (findElement [(''resourceId'', JStr ''btn2'')] None None
            (newScreen ''emu'', demoWorld)) = Inr (Single btn2)"
    using findElement_retains_exact_matches[OF c f,
        where retained = "[btn2]" and conditions = "[(''resourceId'', JStr ''btn2'')]"
          and attributes = None]
    by (simp add: btn1_def btn2_def applyAttributesFilter_None)
  show ?thesis using c 1 2 3 4 5 by simp
qed

text \<open>
  C3. On an empty element cache, with \<open>result\<close> the matching records in filter order
  (each passed through the projection; the records themselves when no attribute list
  is given): when there is none, \<open>findElement\<close> returns \<open>null\<close> and the element cache
  stays empty; when there is exactly one, it is stored in the element cache and
  returned as a single record; when there are several, they are returned as a sequence
  in filter order and the element cache stays empty.
\<close>

theorem findElement_miss_outcomes:
  assumes "cachedElement this = None"
    and "screenHierarchyJSON = Some elements \<and> this1 = this \<and> w1 = w \<or>
         screenHierarchyJSON = None \<and>
           getScreenHierarchy JSON None (this, w) = (Inr (Elements elements), this1, w1)"
    and "result = map (applyAttributesFilter attributes) (filter (isMatching conditions) elements)"
  shows "(result = [] \<longrightarrow>
            findElement conditions screenHierarchyJSON attributes (this, w) = (Inr NoMatch, this1, w1)
            \<and> cachedElement this1 = None)
       \<and> (\<forall>element. result = [element] \<longrightarrow>
            findElement conditions screenHierarchyJSON attributes (this, w) =
              (Inr (Single element), this1\<lparr>cachedElement := Some element\<rparr>, w1))
       \<and> (1 < length result \<longrightarrow>
            findElement conditions screenHierarchyJSON attributes (this, w) =
              (Inr (Multiple result), this1, w1)
            \<and> cachedElement this1 = None)
       \<and> (attributes = None \<longrightarrow> result = filter (isMatching conditions) elements)"
proof -
  have c: "cachedElement this1 = None"
    using assms(1,2) getScreenHierarchy_cachedElement by fastforce
  have a: "attributes = None \<longrightarrow> result = filter (isMatching conditions) elements"
    using assms(3) by (simp add: applyAttributesFilter_None)
  show ?thesis
    unfolding findElement_miss[OF assms(1,2)] assms(3)[symmetric]
    using c a by (auto simp: Let_def)
qed

theorem findElement_miss_outcomes_witness:
  "cachedElement (newScreen ''emu'') = None
   \<and> findElement [(''resourceId'', JStr ''btn3'')] (Some [btn1, btn2]) None
        (newScreen ''emu'', deadWorld) = (Inr NoMatch, newScreen ''emu'', deadWorld)
   \<and> findElement [(''resourceId'', JStr ''btn1'')] (Some [btn1, btn2]) None
        (newScreen ''emu'', deadWorld) =
        (Inr (Single btn1), (newScreen ''emu'')\<lparr>cachedElement := Some btn1\<rparr>, deadWorld)
   \<and> findElement [] (Some [btn1, btn2]) None (newScreen ''emu'', deadWorld) =
        (Inr (Multiple [btn1, btn2]), newScreen ''emu'', deadWorld)"
proof -
  have c: "cachedElement (newScreen ''emu'') = None"
    by (simp add: newScreen_def)
  have s: "Some [btn1, btn2] = Some [btn1, btn2] \<and> newScreen ''emu'' = newScreen ''emu''
        \<and> deadWorld = deadWorld \<or>
      Some [btn1, btn2] = None \<and>
        getScreenHierarchy JSON None (newScreen ''emu'', deadWorld) =
          (Inr (Elements [btn1, btn2]), newScreen ''emu'', deadWorld)"
    by simp
  have 1: "findElement [(''resourceId'', JStr ''btn3'')] (Some [btn1, btn2]) None
        (newScreen ''emu'', deadWorld) = (Inr NoMatch, newScreen ''emu'', deadWorld)"
    using findElement_miss_outcomes[OF c s,
        where result = "[]" and conditions = "[(''resourceId'', JStr ''btn3'')]"
          and attributes = None]
    by (simp add: btn1_def btn2_def applyAttributesFilter_None)
  have 2: "findElement [(''resourceId'', JStr ''btn1'')] (Some [btn1, btn2]) None
        (newScreen ''emu'', deadWorld) =
        (Inr (Single btn1), (newScreen ''emu'')\<lparr>cachedElement := Some btn1\<rparr>, deadWorld)"
    using findElement_miss_outcomes[OF c s,
        where result = "[btn1]" and conditions = "[(''resourceId'', JStr ''btn1'')]"
          and attributes = None]
    by (simp add: btn1_def btn2_def applyAttributesFilter_None)
  have 3: "findElement [] (Some [btn1, btn2]) None (newScreen ''emu'', deadWorld) =
        (Inr (Multiple [btn1, btn2]), newScreen ''emu'', deadWorld)"
    using findElement_miss_outcomes[OF c s,
        where result = "[btn1, btn2]" and conditions = "[]" and attributes = None]
    by (simp add: applyAttributesFilter_None)
  show ?thesis using c 1 2 3 by simp
qed

text \<open>
  C2. When its cache slot holds a value, \<open>getScreenHierarchy\<close> returns the cached
  hierarchy for every output format and output path, and \<open>findElement\<close> returns the
  cached element for every condition, supplied hierarchy and attribute list; neither
  changes the object or the world (no command is issued, no file written). Hence a
  second call returns what the first returned, whatever the device has become (\<open>w2\<close>
  is any world). The same holds after a first call that filled the slot: a successful
  \<open>getScreenHierarchy('JSON')\<close>, a \<open>findElement\<close> that returned a single record.
\<close>

theorem cache_hit_ignores_arguments:
  "(cachedScreenHierarchy this = Some hierarchy \<longrightarrow>
      getScreenHierarchy outputFormat outputFilePath (this, w) =
        (Inr (Elements hierarchy), this, w))
   \<and> (cachedElement this = Some element \<longrightarrow>
      findElement conditions screenHierarchyJSON attributes (this, w) =
        (Inr (Single element), this, w))
   \<and> (cachedScreenHierarchy this = Some hierarchy \<longrightarrow>
      (case getScreenHierarchy outputFormat outputFilePath (this, w) of
         (first, this1, w1) \<Rightarrow>
           fst (getScreenHierarchy outputFormat2 outputFilePath2 (this1, w2)) = first))
   \<and> (cachedElement this = Some element \<longrightarrow>
      (case findElement conditions screenHierarchyJSON attributes (this, w) of
         (first, this1, w1) \<Rightarrow>
           fst (findElement conditions2 screenHierarchyJSON2 attributes2 (this1, w2)) = first))
   \<and> (getScreenHierarchy JSON outputFilePath (this, w) = (Inr r, this1, w1) \<longrightarrow>
        getScreenHierarchy outputFormat2 outputFilePath2 (this1, w2) = (Inr r, this1, w2))
   \<and> (findElement conditions screenHierarchyJSON attributes (this, w) =
          (Inr (Single element), this1, w1) \<longrightarrow>
        findElement conditions2 screenHierarchyJSON2 attributes2 (this1, w2) =
          (Inr (Single element), this1, w2))"
proof -
  have h: "cachedScreenHierarchy this = Some hierarchy \<longrightarrow>
      getScreenHierarchy fmt path (this, w') = (Inr (Elements hierarchy), this, w')"
    for fmt path w'
    by (simp add: getScreenHierarchy_hit)
  have e: "cachedElement this = Some element \<longrightarrow>
      findElement c s a (this, w') = (Inr (Single element), this, w')"
    for c s a w'
    by (simp add: findElement_hit)
  have hh: "getScreenHierarchy JSON outputFilePath (this, w) = (Inr r, this1, w1) \<longrightarrow>
        getScreenHierarchy outputFormat2 outputFilePath2 (this1, w2) = (Inr r, this1, w2)"
  proof
    assume a: "getScreenHierarchy JSON outputFilePath (this, w) = (Inr r, this1, w1)"
    then have "\<exists>els. r = Elements els \<and> cachedScreenHierarchy this1 = Some els"
      by (auto simp: getScreenHierarchy_def Let_def execCommand_def
          split: option.splits sum.splits if_splits prod.splits)
    then show "getScreenHierarchy outputFormat2 outputFilePath2 (this1, w2) = (Inr r, this1, w2)"
      by (auto simp: getScreenHierarchy_hit)
  qed
  have ee: "findElement conditions screenHierarchyJSON attributes (this, w) =
          (Inr (Single element), this1, w1) \<longrightarrow>
        findElement conditions2 screenHierarchyJSON2 attributes2 (this1, w2) =
          (Inr (Single element), this1, w2)"
  proof
    assume a: "findElement conditions screenHierarchyJSON attributes (this, w) =
          (Inr (Single element), this1, w1)"
    then have "cachedElement this1 = Some element"
      by (auto simp: findElement_def Let_def
          split: option.splits sum.splits if_splits prod.splits hierarchy_result.splits)
    then show "findElement conditions2 screenHierarchyJSON2 attributes2 (this1, w2) =
          (Inr (Single element), this1, w2)"
      by (simp add: findElement_hit)
  qed
  show ?thesis
    using h[of outputFormat outputFilePath w] h[of outputFormat2 outputFilePath2 w2]
      e[of conditions screenHierarchyJSON attributes w]
      e[of conditions2 screenHierarchyJSON2 attributes2 w2] hh ee
    by simp
qed

theorem cache_hit_ignores_arguments_witness:
  "getScreenHierarchy XML (Some ''out.xml'')
      ((newScreen ''emu'')\<lparr>cachedScreenHierarchy := Some [btn1], cachedElement := Some btn1\<rparr>,
       demoWorld) =
     (Inr (Elements [btn1]),
      (newScreen ''emu'')\<lparr>cachedScreenHierarchy := Some [btn1], cachedElement := Some btn1\<rparr>,
      demoWorld)
   \<and> findElement [(''resourceId'', JStr ''btn2'')] (Some [btn2]) (Some [''clickable''])
      ((newScreen ''emu'')\<lparr>cachedScreenHierarchy := Some [btn1], cachedElement := Some btn1\<rparr>,
       demoWorld) =
     (Inr (Single btn1),
      (newScreen ''emu'')\<lparr>cachedScreenHierarchy := Some [btn1], cachedElement := Some btn1\<rparr>,
      demoWorld)
   \<and> getScreenHierarchy XML (Some ''out.xml'')
      ((newScreen ''emu'')\<lparr>cachedScreenHierarchy :=
          Some [[(''rotation'', JStr ''0'')], btn1, btn2]\<rparr>, deadWorld) =
     (Inr (Elements [[(''rotation'', JStr ''0'')], btn1, btn2]),
      (newScreen ''emu'')\<lparr>cachedScreenHierarchy :=
          Some [[(''rotation'', JStr ''0'')], btn1, btn2]\<rparr>, deadWorld)
   \<and> findElement [(''resourceId'', JStr ''btn2'')] None None
      ((newScreen ''emu'')\<lparr>cachedElement := Some btn1\<rparr>, deadWorld) =
     (Inr (Single btn1), (newScreen ''emu'')\<lparr>cachedElement := Some btn1\<rparr>, deadWorld)"
proof -
  have f: "findElement [(''resourceId'', JStr ''btn1'')] (Some [btn1, btn2]) None
             (newScreen ''emu'', demoWorld) =
           (Inr (Single btn1), (newScreen ''emu'')\<lparr>cachedElement := Some btn1\<rparr>, demoWorld)"
    by (simp add: findElement_def newScreen_def btn1_def btn2_def applyAttributesFilter_def
        Let_def)
  have 1: "getScreenHierarchy XML (Some ''out.xml'')
      ((newScreen ''emu'')\<lparr>cachedScreenHierarchy := Some [btn1], cachedElement := Some btn1\<rparr>,
       demoWorld) =
     (Inr (Elements [btn1]),
      (newScreen ''emu'')\<lparr>cachedScreenHierarchy := Some [btn1], cachedElement := Some btn1\<rparr>,
      demoWorld)
   \<and> findElement [(''resourceId'', JStr ''btn2'')] (Some [btn2]) (Some [''clickable''])
      ((newScreen ''emu'')\<lparr>cachedScreenHierarchy := Some [btn1], cachedElement := Some btn1\<rparr>,
       demoWorld) =
     (Inr (Single btn1),
      (newScreen ''emu'')\<lparr>cachedScreenHierarchy := Some [btn1], cachedElement := Some btn1\<rparr>,
      demoWorld)"
    using cache_hit_ignores_arguments[
        where this = "(newScreen ''emu'')\<lparr>cachedScreenHierarchy := Some [btn1],
                        cachedElement := Some btn1\<rparr>"
          and hierarchy = "[btn1]" and element = btn1
          and outputFormat = XML and outputFilePath = "Some ''out.xml''" and w = demoWorld
          and conditions = "[(''resourceId'', JStr ''btn2'')]"
          and screenHierarchyJSON = "Some [btn2]" and attributes = "Some [''clickable'']"
          and ?outputFormat2.0 = JSON and ?outputFilePath2.0 = None and ?w2.0 = deadWorld
          and ?conditions2.0 = "[]" and ?screenHierarchyJSON2.0 = None and ?attributes2.0 = None
          and r = "Elements [btn1]"
          and ?this1.0 = "(newScreen ''emu'')\<lparr>cachedScreenHierarchy := Some [btn1],
                        cachedElement := Some btn1\<rparr>"
          and ?w1.0 = demoWorld]
    by (simp add: newScreen_def)
  have 2: "getScreenHierarchy XML (Some ''out.xml'')
      ((newScreen ''emu'')\<lparr>cachedScreenHierarchy :=
          Some [[(''rotation'', JStr ''0'')], btn1, btn2]\<rparr>, deadWorld) =
     (Inr (Elements [[(''rotation'', JStr ''0'')], btn1, btn2]),
      (newScreen ''emu'')\<lparr>cachedScreenHierarchy :=
          Some [[(''rotation'', JStr ''0'')], btn1, btn2]\<rparr>, deadWorld)
   \<and> findElement [(''resourceId'', JStr ''btn2'')] None None
      ((newScreen ''emu'')\<lparr>cachedElement := Some btn1\<rparr>, deadWorld) =
     (Inr (Single btn1), (newScreen ''emu'')\<lparr>cachedElement := Some btn1\<rparr>, deadWorld)"
    using demo_getScreenHierarchy f
    using cache_hit_ignores_arguments[
        where this = "newScreen ''emu''"
          and hierarchy = "[]" and element = btn1
          and outputFormat = JSON and outputFilePath = None and w = demoWorld
          and conditions = "[(''resourceId'', JStr ''btn1'')]"
          and screenHierarchyJSON = "Some [btn1, btn2]" and attributes = None
          and ?outputFormat2.0 = XML and ?outputFilePath2.0 = "Some ''out.xml''" and ?w2.0 = deadWorld
          and ?conditions2.0 = "[(''resourceId'', JStr ''btn2'')]"
          and ?screenHierarchyJSON2.0 = None and ?attributes2.0 = None
          and r = "Elements [[(''rotation'', JStr ''0'')], btn1, btn2]"
          and ?this1.0 = "(newScreen ''emu'')\<lparr>cachedScreenHierarchy :=
                          Some [[(''rotation'', JStr ''0'')], btn1, btn2]\<rparr>"
          and ?w1.0 = "demoWorld\<lparr>issued := [''adb -s emu exec-out uiautomator dump /dev/tty'']\<rparr>"]
    using cache_hit_ignores_arguments[
        where this = "newScreen ''emu''"
          and hierarchy = "[]" and element = btn1
          and outputFormat = JSON and outputFilePath = None and w = demoWorld
          and conditions = "[(''resourceId'', JStr ''btn1'')]"
          and screenHierarchyJSON = "Some [btn1, btn2]" and attributes = None
          and ?outputFormat2.0 = XML and ?outputFilePath2.0 = "Some ''out.xml''" and ?w2.0 = deadWorld
          and ?conditions2.0 = "[(''resourceId'', JStr ''btn2'')]"
          and ?screenHierarchyJSON2.0 = None and ?attributes2.0 = None
          and r = "Elements [[(''rotation'', JStr ''0'')], btn1, btn2]"
          and ?this1.0 = "(newScreen ''emu'')\<lparr>cachedElement := Some btn1\<rparr>"
          and ?w1.0 = demoWorld]
    by simp
  show ?thesis using 1 2 by simp
qed

section \<open>Projection and the cached element\<close>

text \<open>
  C5 (the code departs from the claim). With the attribute list
  \<open>['resourceId', 'clickable']\<close>, the record \<open>btn2\<close>, which carries
  \<open>clickable: false\<close>, is projected to \<open>{resourceId: 'btn2'}\<close>: the test
  \<open>if (element[attr])\<close> drops a requested key that is present with a falsy value.
\<close>

theorem projection_drops_falsy_attributes:
  "findElement [(''resourceId'', JStr ''btn2'')] (Some [btn1, btn2])
      (Some [''resourceId'', ''clickable'']) (newScreen ''emu'', w) =
     (Inr (Single [(''resourceId'', JStr ''btn2'')]),
      (newScreen ''emu'')\<lparr>cachedElement := Some [(''resourceId'', JStr ''btn2'')]\<rparr>, w)
   \<and> map_of btn2 ''clickable'' = Some (JBool False)"
  by (simp add: findElement_def newScreen_def btn1_def btn2_def applyAttributesFilter_def Let_def)

text \<open>
  What the projection keeps: the requested keys whose value on the record is truthy.
\<close>

lemma applyAttributesFilter_keeps_truthy:
  "map_of (applyAttributesFilter (Some attrs) element) key =
     (case map_of element key of
        None \<Rightarrow> None
      | Some v \<Rightarrow> if key \<in> set attrs \<and> truthy v then Some v else None)"
  by (auto simp: map_of_applyAttributesFilter split: option.splits)

text \<open>
  C10, as the code has it. With an attribute list and exactly one matching record, the
  element cache receives the projected record, whose keys are among the requested ones
  and whose values are those of the matching record, and every later \<open>findElement\<close>
  returns that projected record, whatever its arguments.
\<close>

theorem single_match_caches_projection:
  assumes "cachedElement this = None"
    and "screenHierarchyJSON = Some elements \<and> this1 = this \<and> w1 = w \<or>
         screenHierarchyJSON = None \<and>
           getScreenHierarchy JSON None (this, w) = (Inr (Elements elements), this1, w1)"
    and "filter (isMatching conditions) elements = [element]"
    and "projected = applyAttributesFilter (Some attrs) element"
  shows "findElement conditions screenHierarchyJSON (Some attrs) (this, w) =
           (Inr (Single projected), this1\<lparr>cachedElement := Some projected\<rparr>, w1)
       \<and> fst ` set projected \<subseteq> set attrs
       \<and> (\<forall>key. key \<notin> set attrs \<longrightarrow> map_of projected key = None)
       \<and> (\<forall>key v. map_of projected key = Some v \<longrightarrow> map_of element key = Some v)
       \<and> findElement conditions2 screenHierarchyJSON2 attributes2
            (this1\<lparr>cachedElement := Some projected\<rparr>, w2) =
           (Inr (Single projected), this1\<lparr>cachedElement := Some projected\<rparr>, w2)"
proof -
  have 1: "findElement conditions screenHierarchyJSON (Some attrs) (this, w) =
           (Inr (Single projected), this1\<lparr>cachedElement := Some projected\<rparr>, w1)"
    unfolding findElement_miss[OF assms(1,2)] using assms(3,4) by (simp add: Let_def)
  have 2: "fst ` set projected \<subseteq> set attrs"
    unfolding assms(4) by (rule keys_applyAttributesFilter)
  have 3: "\<forall>key. key \<notin> set attrs \<longrightarrow> map_of projected key = None"
    unfolding assms(4) by (simp add: map_of_applyAttributesFilter)
  have 4: "\<forall>key v. map_of projected key = Some v \<longrightarrow> map_of element key = Some v"
    unfolding assms(4) by (simp add: map_of_applyAttributesFilter split: if_splits)
  have 5: "findElement conditions2 screenHierarchyJSON2 attributes2
            (this1\<lparr>cachedElement := Some projected\<rparr>, w2) =
           (Inr (Single projected), this1\<lparr>cachedElement := Some projected\<rparr>, w2)"
    by (simp add: findElement_hit)
  show ?thesis using 1 2 3 4 5 by blast
qed

theorem single_match_caches_projection_witness:
  "cachedElement (newScreen ''emu'') = None
   \<and> filter (isMatching [(''resourceId'', JStr ''btn1'')]) [btn1, btn2] = [btn1]
   \<and> findElement [(''resourceId'', JStr ''btn1'')] (Some [btn1, btn2]) (Some [''clickable''])
        (newScreen ''emu'', deadWorld) =
       (Inr (Single [(''clickable'', JBool True)]),
        (newScreen ''emu'')\<lparr>cachedElement := Some [(''clickable'', JBool True)]\<rparr>, deadWorld)
   \<and> findElement [] None None
        ((newScreen ''emu'')\<lparr>cachedElement := Some [(''clickable'', JBool True)]\<rparr>, demoWorld) =
       (Inr (Single [(''clickable'', JBool True)]),
        (newScreen ''emu'')\<lparr>cachedElement := Some [(''clickable'', JBool True)]\<rparr>, demoWorld)"
proof -
  have c: "cachedElement (newScreen ''emu'') = None"
    by (simp add: newScreen_def)
  have s: "Some [btn1, btn2] = Some [btn1, btn2] \<and> newScreen ''emu'' = newScreen ''emu''
        \<and> deadWorld = deadWorld \<or>
      Some [btn1, btn2] = None \<and>
        getScreenHierarchy JSON None (newScreen ''emu'', deadWorld) =
          (Inr (Elements [btn1, btn2]), newScreen ''emu'', deadWorld)"
    by simp
  have m: "filter (isMatching [(''resourceId'', JStr ''btn1'')]) [btn1, btn2] = [btn1]"
    by (simp add: btn1_def btn2_def)
  have p: "[(''clickable'', JBool True)] = applyAttributesFilter (Some [''clickable'']) btn1"
    by (simp add: applyAttributesFilter_def btn1_def)
  show ?thesis
    using c m single_match_caches_projection[OF c s m p,
        where ?w2.0 = demoWorld and ?conditions2.0 = "[]" and ?screenHierarchyJSON2.0 = None
          and ?attributes2.0 = None]
    by simp
qed

text \<open>
  The last part of C10 as it was stated, that an attribute-flag query without an
  element argument sees the cached projection, fails. On a helper for one device,
  \<open>screen.findElement\<close> caches the projection \<open>{clickable: true}\<close> in the
  \<open>Screen\<close> object; \<open>uiAttributes.isClickable()\<close> reads the cache of the
  \<open>UIAttributes\<close> object, which is still empty, and answers \<open>null\<close>; and the
  query answers \<open>null\<close> even on the object that holds the cached projection.
\<close>

theorem flag_query_misses_cached_projection_counterexample:
  "findElement [(''resourceId'', JStr ''btn1'')] (Some [btn1, btn2]) (Some [''clickable''])
      (screen (newADBHelper ''emu''), deadWorld) =
     (Inr (Single [(''clickable'', JBool True)]),
      (screen (newADBHelper ''emu''))\<lparr>cachedElement := Some [(''clickable'', JBool True)]\<rparr>,
      deadWorld)
   \<and> cachedElement (uiAttributes (newADBHelper ''emu'')) = None
   \<and> isClickable (uiAttributes (newADBHelper ''emu'')) None = None
   \<and> isClickable
        ((screen (newADBHelper ''emu''))\<lparr>cachedElement := Some [(''clickable'', JBool True)]\<rparr>)
        None = None"
  by (simp add: findElement_def newADBHelper_def newScreen_def newUIAttributes_def
      btn1_def btn2_def applyAttributesFilter_def isClickable_def checkAttribute_def Let_def)

section \<open>Attribute-flag queries on the cache\<close>

text \<open>
  What \<open>checkAttribute\<close> computes: its first test answers \<open>null\<close> unless both the
  cache and the element argument are present; then the argument is examined.
\<close>

lemma checkAttribute_both:
  "checkAttribute this attribute element =
     (case (cachedElement this, element) of
        (Some cached, Some e) \<Rightarrow>
          (case map_of e attribute of None \<Rightarrow> None | Some v \<Rightarrow> Some (v = JBool True))
      | _ \<Rightarrow> None)"
  by (auto simp: checkAttribute_def split: option.splits)

text \<open>
  C6 (the code departs from the claim). With a cached element carrying
  \<open>clickable: true\<close> and no argument, \<open>isClickable\<close> answers \<open>null\<close>, not
  \<open>true\<close>; with an empty cache and an explicit element carrying \<open>clickable: true\<close>
  it answers \<open>null\<close> as well. Only when both are present is the argument examined.
\<close>

theorem checkAttribute_requires_cache_and_argument:
  "isClickable (this\<lparr>cachedElement := Some [(''clickable'', JBool True)]\<rparr>) None = None
   \<and> isClickable (this\<lparr>cachedElement := None\<rparr>) (Some [(''clickable'', JBool True)]) = None
   \<and> isClickable (this\<lparr>cachedElement := Some [(''clickable'', JBool False)]\<rparr>)
        (Some [(''clickable'', JBool True)]) = Some True"
  by (simp add: isClickable_def checkAttribute_def)

section \<open>Resolution\<close>

lemma not_isDigit_x: "\<not> isDigit CHR ''x''"
  by (simp add: isDigit_def)

lemma matchHere_Some:
  assumes "matchHere s = Some (m1, m2)"
  shows "m1 \<noteq> [] \<and> m2 \<noteq> [] \<and> list_all isDigit m1 \<and> list_all isDigit m2
       \<and> (\<exists>post. s = m1 @ CHR ''x'' # m2 @ post)"
proof -
  obtain r where d: "dropWhile isDigit s = CHR ''x'' # r"
    and m1: "m1 = takeWhile isDigit s" "m1 \<noteq> []"
    and m2: "m2 = takeWhile isDigit r" "m2 \<noteq> []"
    using assms by (auto simp: matchHere_def Let_def split: if_splits list.splits)
  have "s = takeWhile isDigit s @ dropWhile isDigit s" by simp
  also have "\<dots> = m1 @ CHR ''x'' # (takeWhile isDigit r @ dropWhile isDigit r)"
    by (simp only: d m1(1) takeWhile_dropWhile_id)
  finally have "s = m1 @ CHR ''x'' # m2 @ dropWhile isDigit r"
    by (simp add: m2(1))
  moreover have "list_all isDigit m1" "list_all isDigit m2"
    unfolding m1(1) m2(1) list_all_iff by (auto dest: set_takeWhileD)
  ultimately show ?thesis using m1(2) m2(2) by blast
qed

lemma matchHere_complete:
  assumes "d1 \<noteq> []" "list_all isDigit d1" "isDigit d2"
  shows "matchHere (d1 @ CHR ''x'' # d2 # rest) = Some (d1, takeWhile isDigit (d2 # rest))"
proof -
  have a: "\<And>c. c \<in> set d1 \<Longrightarrow> isDigit c"
    using assms(2) by (simp add: list_all_iff)
  have t: "takeWhile isDigit (d1 @ CHR ''x'' # d2 # rest) = d1"
    using a by (simp add: takeWhile_append2 not_isDigit_x)
  have d: "dropWhile isDigit (d1 @ CHR ''x'' # d2 # rest) = CHR ''x'' # d2 # rest"
    using a by (simp add: dropWhile_append2 not_isDigit_x)
  show ?thesis
    unfolding matchHere_def t d using assms(1,3) by (simp add: Let_def)
qed

lemma matchResolution_first:
  "matchResolution s = Some m \<Longrightarrow>
   \<exists>pre. length pre \<le> length s \<and> pre = take (length pre) s
     \<and> matchHere (drop (length pre) s) = Some m
     \<and> (\<forall>i < length pre. matchHere (drop i s) = None)"
proof (induction s)
  case Nil
  then show ?case by simp
next
  case (Cons c s)
  show ?case
  proof (cases "matchHere (c # s)")
    case (Some m')
    then have "matchHere (drop (length ([]::string)) (c # s)) = Some m"
      using Cons.prems by simp
    then show ?thesis
      by (intro exI[of _ "[]"]) simp
  next
    case None
    then have "matchResolution s = Some m" using Cons.prems by simp
    then obtain pre where p: "length pre \<le> length s" "pre = take (length pre) s"
      "matchHere (drop (length pre) s) = Some m"
      "\<forall>i < length pre. matchHere (drop i s) = None"
      using Cons.IH by blast
    have "\<forall>i < length (c # pre). matchHere (drop i (c # s)) = None"
    proof (intro allI impI)
      fix i assume "i < length (c # pre)"
      then show "matchHere (drop i (c # s)) = None"
        using None p(4) by (cases i) auto
    qed
    moreover have "c # pre = take (length (c # pre)) (c # s)"
      using p(2) by simp
    ultimately show ?thesis
      using p(1,3) by (intro exI[of _ "c # pre"]) simp
  qed
qed

lemma matchResolution_None:
  "matchResolution s = None \<longleftrightarrow> (\<forall>i < length s. matchHere (drop i s) = None)"
proof (induction s)
  case Nil
  then show ?case by simp
next
  case (Cons c s)
  have "(\<forall>i < length (c # s). matchHere (drop i (c # s)) = None) \<longleftrightarrow>
        matchHere (c # s) = None \<and> (\<forall>i < length s. matchHere (drop i s) = None)"
    by (auto simp: less_Suc_eq_0_disj)
  then show ?case using Cons.IH by (auto split: option.splits)
qed

lemma matchResolution_None_iff:
  "matchResolution s = None \<longleftrightarrow>
     \<not> (\<exists>pre a b post. s = pre @ a # CHR ''x'' # b # post \<and> isDigit a \<and> isDigit b)"
proof
  assume n: "matchResolution s = None"
  show "\<not> (\<exists>pre a b post. s = pre @ a # CHR ''x'' # b # post \<and> isDigit a \<and> isDigit b)"
  proof
    assume "\<exists>pre a b post. s = pre @ a # CHR ''x'' # b # post \<and> isDigit a \<and> isDigit b"
    then obtain pre a b post where s: "s = pre @ a # CHR ''x'' # b # post"
      and ab: "isDigit a" "isDigit b" by blast
    have "matchHere (drop (length pre) s) = Some ([a], takeWhile isDigit (b # post))"
      using matchHere_complete[of "[a]" b post] ab by (simp add: s)
    moreover have "length pre < length s" by (simp add: s)
    ultimately show False using n by (simp add: matchResolution_None)
  qed
next
  assume a: "\<not> (\<exists>pre a b post. s = pre @ a # CHR ''x'' # b # post \<and> isDigit a \<and> isDigit b)"
  show "matchResolution s = None"
  proof (rule ccontr)
    assume "matchResolution s \<noteq> None"
    then obtain m1 m2 where "matchResolution s = Some (m1, m2)" by auto
    then obtain pre where p: "pre = take (length pre) s"
      "matchHere (drop (length pre) s) = Some (m1, m2)"
      using matchResolution_first by blast
    then obtain post where m: "m1 \<noteq> []" "m2 \<noteq> []" "list_all isDigit m1" "list_all isDigit m2"
      "drop (length pre) s = m1 @ CHR ''x'' # m2 @ post"
      using matchHere_Some by blast
    have "s = take (length pre) s @ drop (length pre) s" by simp
    then have "s = pre @ m1 @ CHR ''x'' # m2 @ post" using p(1) m(5) by simp
    moreover have "m1 = butlast m1 @ [last m1]" "m2 = hd m2 # tl m2"
      using m(1,2) by simp_all
    ultimately have "s = (pre @ butlast m1) @ last m1 # CHR ''x'' # hd m2 # (tl m2 @ post)"
      by (metis append.assoc append_Cons append_Nil)
    moreover have "isDigit (last m1)" "isDigit (hd m2)"
      using m(1-4) by (simp_all add: list_all_iff)
    ultimately show False using a by blast
  qed
qed

lemma toNumber_exact: "n < 2 ^ 53 \<Longrightarrow> toNumber n = n"
  by (simp add: toNumber_def roundingExponent.simps[of n])

lemma parseInt_digits_exact:
  "decimalValue s < 2 ^ 53 \<Longrightarrow> parseInt_digits s = Num (decimalValue s)"
  by (simp add: parseInt_digits_def toNumber_exact Let_def)

text \<open>From \<open>2^53\<close> on the result is rounded: \<open>2^53 + 1\<close> is read as \<open>2^53\<close>.\<close>

lemma roundingExponent_example: "roundingExponent 9007199254740993 = 1"
  by (simp add: roundingExponent.simps[of 9007199254740993]
      roundingExponent.simps[of 4503599627370496])

lemma parseInt_digits_rounds:
  "parseInt_digits ''9007199254740993'' = Num 9007199254740992"
  by (simp add: parseInt_digits_def decimalValue_def toNumber_def roundingExponent_example
      Let_def)

lemma parse_example:
  "matchResolution ''Physical size: 1080x2400'' = Some (''1080'', ''2400'')
   \<and> parseInt_digits ''1080'' = Num 1080 \<and> parseInt_digits ''2400'' = Num 2400"
  by (simp add: matchHere_def isDigit_def parseInt_digits_def decimalValue_def
      toNumber_exact Let_def)

text \<open>
  C9. On an empty resolution cache \<open>getScreenResolution\<close> issues the size query.
  If the answer contains a match of \<open>(\d+)x(\d+)\<close>, the two groups are read by
  \<open>parseInt\<close> (the integer they denote when it is below \<open>2^53\<close>, the nearest
  double otherwise), the pair is stored in the resolution cache and returned. If the
  answer contains no such match, or the transport fails, the result is \<open>null\<close> and
  the object is unchanged, so the next call queries again. The match is the leftmost
  one: the text is \<open>pre @ m1 @ x @ m2 @ post\<close> with \<open>m1\<close>, \<open>m2\<close> non-empty
  runs of digits and the pattern matching at no earlier position; there is no match
  exactly when no digit, \<open>x\<close>, digit occur in a row. \<open>"Physical size: 1080x2400"\<close>
  yields width 1080 and height 2400.
\<close>

theorem getScreenResolution_on_empty_cache:
  assumes "cachedScreenResolution this = None"
    and "command = ''adb -s '' @ Screen.deviceId this @ '' shell wm size''"
    and "wq = w\<lparr>issued := issued w @ [command]\<rparr>"
  shows "(\<forall>s m1 m2. ADBShell w command = Inr s \<and> matchResolution s = Some (m1, m2) \<longrightarrow>
            getScreenResolution (this, w) =
              (Some \<lparr>width = parseInt_digits m1, height = parseInt_digits m2\<rparr>,
               this\<lparr>cachedScreenResolution :=
                      Some \<lparr>width = parseInt_digits m1, height = parseInt_digits m2\<rparr>\<rparr>,
               wq))
       \<and> (\<forall>s. ADBShell w command = Inr s \<and> matchResolution s = None \<longrightarrow>
            getScreenResolution (this, w) = (None, this, wq))
       \<and> (\<forall>e. ADBShell w command = Inl e \<longrightarrow>
            getScreenResolution (this, w) = (None, this, wq))
       \<and> (\<forall>s m1 m2. matchResolution s = Some (m1, m2) \<longrightarrow>
            (\<exists>pre post. s = pre @ m1 @ CHR ''x'' # m2 @ post
               \<and> m1 \<noteq> [] \<and> m2 \<noteq> [] \<and> list_all isDigit m1 \<and> list_all isDigit m2
               \<and> (\<forall>i < length pre. matchHere (drop i s) = None)))
       \<and> (\<forall>s. matchResolution s = None \<longleftrightarrow>
            \<not> (\<exists>pre a b post. s = pre @ a # CHR ''x'' # b # post \<and> isDigit a \<and> isDigit b))
       \<and> (\<forall>m. decimalValue m < 2 ^ 53 \<longrightarrow> parseInt_digits m = Num (decimalValue m))
       \<and> matchResolution ''Physical size: 1080x2400'' = Some (''1080'', ''2400'')
       \<and> parseInt_digits ''1080'' = Num 1080 \<and> parseInt_digits ''2400'' = Num 2400"
proof -
  have ok: "\<forall>s m1 m2. ADBShell w command = Inr s \<and> matchResolution s = Some (m1, m2) \<longrightarrow>
            getScreenResolution (this, w) =
              (Some \<lparr>width = parseInt_digits m1, height = parseInt_digits m2\<rparr>,
               this\<lparr>cachedScreenResolution :=
                      Some \<lparr>width = parseInt_digits m1, height = parseInt_digits m2\<rparr>\<rparr>,
               wq)"
    using assms by (simp add: getScreenResolution_def execCommand_def Let_def)
  have nomatch: "\<forall>s. ADBShell w command = Inr s \<and> matchResolution s = None \<longrightarrow>
            getScreenResolution (this, w) = (None, this, wq)"
    using assms by (simp add: getScreenResolution_def execCommand_def)
  have fail: "\<forall>e. ADBShell w command = Inl e \<longrightarrow>
            getScreenResolution (this, w) = (None, this, wq)"
    using assms by (simp add: getScreenResolution_def execCommand_def)
  have first: "\<forall>s m1 m2. matchResolution s = Some (m1, m2) \<longrightarrow>
            (\<exists>pre post. s = pre @ m1 @ CHR ''x'' # m2 @ post
               \<and> m1 \<noteq> [] \<and> m2 \<noteq> [] \<and> list_all isDigit m1 \<and> list_all isDigit m2
               \<and> (\<forall>i < length pre. matchHere (drop i s) = None))"
  proof (intro allI impI)
    fix s m1 m2 assume "matchResolution s = Some (m1, m2)"
    then obtain pre where p: "pre = take (length pre) s"
      "matchHere (drop (length pre) s) = Some (m1, m2)"
      "\<forall>i < length pre. matchHere (drop i s) = None"
      using matchResolution_first by blast
    then obtain post where m: "m1 \<noteq> []" "m2 \<noteq> []" "list_all isDigit m1" "list_all isDigit m2"
      "drop (length pre) s = m1 @ CHR ''x'' # m2 @ post"
      using matchHere_Some by blast
    have "s = take (length pre) s @ drop (length pre) s" by simp
    then have "s = pre @ m1 @ CHR ''x'' # m2 @ post" using p(1) m(5) by simp
    then show "\<exists>pre post. s = pre @ m1 @ CHR ''x'' # m2 @ post
               \<and> m1 \<noteq> [] \<and> m2 \<noteq> [] \<and> list_all isDigit m1 \<and> list_all isDigit m2
               \<and> (\<forall>i < length pre. matchHere (drop i s) = None)"
      using m(1-4) p(3) by blast
  qed
  have none: "\<forall>s. matchResolution s = None \<longleftrightarrow>
            \<not> (\<exists>pre a b post. s = pre @ a # CHR ''x'' # b # post \<and> isDigit a \<and> isDigit b)"
    using matchResolution_None_iff by blast
  have exact: "\<forall>m. decimalValue m < 2 ^ 53 \<longrightarrow> parseInt_digits m = Num (decimalValue m)"
    by (simp add: parseInt_digits_exact)
  show ?thesis
    using ok nomatch fail first none exact parse_example by blast
qed

theorem getScreenResolution_on_empty_cache_witness:
  "cachedScreenResolution (newScreen ''emu'') = None
   \<and> getScreenResolution (newScreen ''emu'', demoWorld) =
       (Some \<lparr>width = Num 1080, height = Num 2400\<rparr>,
        (newScreen ''emu'')\<lparr>cachedScreenResolution := Some \<lparr>width = Num 1080, height = Num 2400\<rparr>\<rparr>,
        demoWorld\<lparr>issued := [''adb -s emu shell wm size'']\<rparr>)
   \<and> getScreenResolution (newScreen ''emu'', deadWorld) =
       (None, newScreen ''emu'', deadWorld\<lparr>issued := [''adb -s emu shell wm size'']\<rparr>)
   \<and> getScreenResolution (newScreen ''emu'',
         demoWorld\<lparr>ADBShell := (\<lambda>command. Inr ''no size here: 12 x 34'')\<rparr>) =
       (None, newScreen ''emu'',
        demoWorld\<lparr>ADBShell := (\<lambda>command. Inr ''no size here: 12 x 34''),
                    issued := [''adb -s emu shell wm size'']\<rparr>)"
proof -
  have c: "cachedScreenResolution (newScreen ''emu'') = None"
    by (simp add: newScreen_def)
  have d: "''adb -s emu shell wm size'' = ''adb -s '' @ Screen.deviceId (newScreen ''emu'') @ '' shell wm size''"
    by (simp add: newScreen_def)
  have n: "matchResolution ''no size here: 12 x 34'' = None"
    by (simp add: matchHere_def isDigit_def Let_def)
  have 1: "getScreenResolution (newScreen ''emu'', demoWorld) =
       (Some \<lparr>width = Num 1080, height = Num 2400\<rparr>,
        (newScreen ''emu'')\<lparr>cachedScreenResolution := Some \<lparr>width = Num 1080, height = Num 2400\<rparr>\<rparr>,
        demoWorld\<lparr>issued := [''adb -s emu shell wm size'']\<rparr>)"
    using getScreenResolution_on_empty_cache[OF c d,
        where w = demoWorld and wq = "demoWorld\<lparr>issued := [''adb -s emu shell wm size'']\<rparr>"]
    by (simp add: demoWorld_def)
  have 2: "getScreenResolution (newScreen ''emu'', deadWorld) =
       (None, newScreen ''emu'', deadWorld\<lparr>issued := [''adb -s emu shell wm size'']\<rparr>)"
    using getScreenResolution_on_empty_cache[OF c d,
        where w = deadWorld and wq = "deadWorld\<lparr>issued := [''adb -s emu shell wm size'']\<rparr>"]
    by (simp add: deadWorld_def)
  have 3: "getScreenResolution (newScreen ''emu'',
         demoWorld\<lparr>ADBShell := (\<lambda>command. Inr ''no size here: 12 x 34'')\<rparr>) =
       (None, newScreen ''emu'',
        demoWorld\<lparr>ADBShell := (\<lambda>command. Inr ''no size here: 12 x 34''),
                    issued := [''adb -s emu shell wm size'']\<rparr>)"
    using n getScreenResolution_on_empty_cache[OF c d,
        where w = "demoWorld\<lparr>ADBShell := (\<lambda>command. Inr ''no size here: 12 x 34'')\<rparr>"
          and wq = "demoWorld\<lparr>ADBShell := (\<lambda>command. Inr ''no size here: 12 x 34''),
                    issued := [''adb -s emu shell wm size'']\<rparr>"]
    by (simp add: demoWorld_def)
  show ?thesis using c 1 2 3 by simp
qed

section \<open>Flattening\<close>

lemma preorder_records_attribute_lists:
  "preorder_records node = map elementOf (attribute_lists node)"
  by (induction node rule: preorder_records.induct) (simp_all add: map_concat cong: map_cong)

lemma extractNodes_attribute_lists:
  "extractNodes node [] = map elementOf (attribute_lists node)"
  by (simp add: extractNodes_empty preorder_records_attribute_lists)

text \<open>
  C7. Flattening a node yields one record for each of its attribute-carrying nodes, in
  order, and the \<open>i\<close>-th record holds, under each attribute name of the \<open>i\<close>-th such
  node (the names of a tag are distinct, as the keys of an object are), the boolean
  \<open>true\<close> or \<open>false\<close> when the attribute's token is \<open>"true"\<close> or \<open>"false"\<close>, and
  the token itself, as a string, in every other case; it holds nothing under any other
  name. So \<open>"True"\<close> and \<open>"1"\<close> stay strings. \<open>getScreenHierarchy('JSON')\<close> on an
  empty hierarchy cache returns the flattening of the root node.
\<close>

theorem flattening_coerces_exactly_true_false:
  "length (extractNodes node []) = length (attribute_lists node)
   \<and> (\<forall>i key. i < length (attribute_lists node)
          \<and> distinct (map fst (attribute_lists node ! i)) \<longrightarrow>
        map_of (extractNodes node [] ! i) key =
          (case map_of (attribute_lists node ! i) key of
             None \<Rightarrow> None
           | Some token \<Rightarrow>
               Some (if token = ''true'' then JBool True
                     else if token = ''false'' then JBool False
                     else JStr token)))
   \<and> extractNodes
        (XNode (Some [(''checked'', ''true''), (''enabled'', ''false''),
                      (''text'', ''True''), (''index'', ''1'')]) None) [] =
       [[(''checked'', JBool True), (''enabled'', JBool False),
         (''text'', JStr ''True''), (''index'', JStr ''1'')]]
   \<and> (cachedScreenHierarchy this = None
        \<and> ADBShell w (''adb -s '' @ Screen.deviceId this @ '' exec-out uiautomator dump /dev/tty'') =
            Inr hierarchyXML
        \<and> parseStringPromise w hierarchyXML = Inr hierarchyJSON
        \<and> map_of hierarchyJSON ''hierarchy'' = Some node \<longrightarrow>
        fst (getScreenHierarchy JSON None (this, w)) = Inr (Elements (extractNodes node [])))"
proof -
  have len: "length (extractNodes node []) = length (attribute_lists node)"
    by (simp add: extractNodes_attribute_lists)
  have rec: "\<forall>i key. i < length (attribute_lists node)
          \<and> distinct (map fst (attribute_lists node ! i)) \<longrightarrow>
        map_of (extractNodes node [] ! i) key =
          (case map_of (attribute_lists node ! i) key of
             None \<Rightarrow> None
           | Some token \<Rightarrow>
               Some (if token = ''true'' then JBool True
                     else if token = ''false'' then JBool False
                     else JStr token))"
  proof (intro allI impI)
    fix i key
    assume a: "i < length (attribute_lists node)
          \<and> distinct (map fst (attribute_lists node ! i))"
    then have "extractNodes node [] ! i = elementOf (attribute_lists node ! i)"
      by (simp add: extractNodes_attribute_lists)
    then show "map_of (extractNodes node [] ! i) key =
          (case map_of (attribute_lists node ! i) key of
             None \<Rightarrow> None
           | Some token \<Rightarrow>
               Some (if token = ''true'' then JBool True
                     else if token = ''false'' then JBool False
                     else JStr token))"
      using a by (simp add: map_of_elementOf coerce_def split: option.splits)
  qed
  have ex: "extractNodes
        (XNode (Some [(''checked'', ''true''), (''enabled'', ''false''),
                      (''text'', ''True''), (''index'', ''1'')]) None) [] =
       [[(''checked'', JBool True), (''enabled'', JBool False),
         (''text'', JStr ''True''), (''index'', JStr ''1'')]]"
    by (simp add: elementOf_def coerce_def)
  have top: "cachedScreenHierarchy this = None
        \<and> ADBShell w (''adb -s '' @ Screen.deviceId this @ '' exec-out uiautomator dump /dev/tty'') =
            Inr hierarchyXML
        \<and> parseStringPromise w hierarchyXML = Inr hierarchyJSON
        \<and> map_of hierarchyJSON ''hierarchy'' = Some node \<longrightarrow>
        fst (getScreenHierarchy JSON None (this, w)) = Inr (Elements (extractNodes node []))"
    by (simp add: getScreenHierarchy_def execCommand_def writeIfPath_def Let_def)
  show ?thesis using len rec ex top by blast
qed

theorem flattening_coerces_exactly_true_false_witness:
  "attribute_lists demoRoot =
     [[(''rotation'', ''0'')],
      [(''resourceId'', ''btn1''), (''clickable'', ''true'')],
      [(''resourceId'', ''btn2''), (''clickable'', ''false'')]]
   \<and> map_of (extractNodes demoRoot [] ! 0) ''rotation'' = Some (JStr ''0'')
   \<and> map_of (extractNodes demoRoot [] ! 1) ''clickable'' = Some (JBool True)
   \<and> map_of (extractNodes demoRoot [] ! 2) ''clickable'' = Some (JBool False)
   \<and> map_of (extractNodes demoRoot [] ! 2) ''resourceId'' = Some (JStr ''btn2'')
   \<and> map_of (extractNodes demoRoot [] ! 2) ''text'' = None
   \<and> fst (getScreenHierarchy JSON None (newScreen ''emu'', demoWorld)) =
       Inr (Elements (extractNodes demoRoot []))"
proof -
  have al: "attribute_lists demoRoot =
     [[(''rotation'', ''0'')],
      [(''resourceId'', ''btn1''), (''clickable'', ''true'')],
      [(''resourceId'', ''btn2''), (''clickable'', ''false'')]]"
    by (simp add: demoRoot_def)
  have c: "cachedScreenHierarchy (newScreen ''emu'') = None
     \<and> ADBShell demoWorld
         (''adb -s '' @ Screen.deviceId (newScreen ''emu'') @ '' exec-out uiautomator dump /dev/tty'') =
         Inr ''<dump>''
     \<and> parseStringPromise demoWorld ''<dump>'' = Inr [(''hierarchy'', demoRoot)]
     \<and> map_of [(''hierarchy'', demoRoot)] ''hierarchy'' = Some demoRoot"
    by (simp add: demoWorld_def newScreen_def)
  note t = flattening_coerces_exactly_true_false[where node = demoRoot
      and this = "newScreen ''emu''" and w = demoWorld and hierarchyXML = "''<dump>''"
      and hierarchyJSON = "[(''hierarchy'', demoRoot)]"]
  have r: "\<And>i key. i < 3 \<Longrightarrow> distinct (map fst (attribute_lists demoRoot ! i)) \<Longrightarrow>
        map_of (extractNodes demoRoot [] ! i) key =
          (case map_of (attribute_lists demoRoot ! i) key of
             None \<Rightarrow> None
           | Some token \<Rightarrow>
               Some (if token = ''true'' then JBool True
                     else if token = ''false'' then JBool False
                     else JStr token))"
    using t by (simp add: al)
  have 0: "map_of (extractNodes demoRoot [] ! 0) ''rotation'' = Some (JStr ''0'')"
    using r[of 0 "''rotation''"] by (simp add: al)
  have 1: "map_of (extractNodes demoRoot [] ! 1) ''clickable'' = Some (JBool True)"
    using r[of 1 "''clickable''"] by (simp add: al)
  have 2: "map_of (extractNodes demoRoot [] ! 2) ''clickable'' = Some (JBool False)"
    using r[of 2 "''clickable''"] by (simp add: al)
  have 3: "map_of (extractNodes demoRoot [] ! 2) ''resourceId'' = Some (JStr ''btn2'')"
    using r[of 2 "''resourceId''"] by (simp add: al)
  have 4: "map_of (extractNodes demoRoot [] ! 2) ''text'' = None"
    using r[of 2 "''text''"] by (simp add: al)
  have 5: "fst (getScreenHierarchy JSON None (newScreen ''emu'', demoWorld)) =
       Inr (Elements (extractNodes demoRoot []))"
    using t c by blast
  show ?thesis using al 0 1 2 3 4 5 by simp
qed

text \<open>
  C8. \<open>extractNodes\<close> appends to the output exactly the pre-order sequence of records
  of the node: the record of a node that carries attributes comes first, followed by
  the records of its children, child by child in document order; a node without
  attributes contributes no record and its children are still traversed.
\<close>

theorem extractNodes_is_preorder:
  "extractNodes node elements = elements @ preorder_records node
   \<and> extractNodes (XNode (Some entries) (Some childNodes)) [] =
       elementOf entries # concat (map (\<lambda>child. extractNodes child []) childNodes)
   \<and> extractNodes (XNode None (Some childNodes)) [] =
       concat (map (\<lambda>child. extractNodes child []) childNodes)
   \<and> extractNodes (XNode (Some entries) None) [] = [elementOf entries]
   \<and> extractNodes (XNode None None) [] = []"
proof -
  have m: "map (\<lambda>child. extractNodes child []) childNodes = map preorder_records childNodes"
    by (simp add: extractNodes_empty)
  show ?thesis
    unfolding m by (simp add: extractNodes_acc)
qed

theorem extractNodes_is_preorder_witness:
  "extractNodes demoRoot [] = [[(''rotation'', JStr ''0'')], btn1, btn2]
   \<and> extractNodes
        (XNode None (Some [XNode (Some [(''text'', ''a'')]) (Some [XNode (Some [(''text'', ''b'')]) None]),
                           XNode (Some [(''text'', ''c'')]) None])) [] =
      [[(''text'', JStr ''a'')], [(''text'', JStr ''b'')], [(''text'', JStr ''c'')]]"
  using extractNodes_is_preorder[where node = demoRoot and elements = "[]"]
    extractNodes_is_preorder[
      where node = "XNode None (Some [XNode (Some [(''text'', ''a'')])
                                        (Some [XNode (Some [(''text'', ''b'')]) None]),
                                      XNode (Some [(''text'', ''c'')]) None])"
        and elements = "[]"]
  by (simp add: demoRoot_def btn1_def btn2_def elementOf_def coerce_def)

text \<open>
  C4, as the code has it. The root node of the document is handed to \<open>extractNodes\<close>
  like every other node: it contributes one record, the first of the hierarchy, when
  it carries attributes, and none when it carries none; in both cases its \<open>node\<close>
  children are traversed. On the example screen the root's \<open>rotation\<close> attribute is
  the first record of the hierarchy.
\<close>

theorem root_node_flattened_like_any_node:
  assumes "cachedScreenHierarchy this = None"
    and "ADBShell w (''adb -s '' @ Screen.deviceId this @ '' exec-out uiautomator dump /dev/tty'') =
           Inr hierarchyXML"
    and "parseStringPromise w hierarchyXML = Inr hierarchyJSON"
    and "map_of hierarchyJSON ''hierarchy'' = Some (XNode dollar nodes)"
  shows "fst (getScreenHierarchy JSON None (this, w)) =
           Inr (Elements
             ((case dollar of None \<Rightarrow> [] | Some entries \<Rightarrow> [elementOf entries]) @
              concat (map (\<lambda>child. extractNodes child [])
                        (case nodes of None \<Rightarrow> [] | Some childNodes \<Rightarrow> childNodes))))"
proof -
  have m: "map (\<lambda>child. extractNodes child []) cs = map preorder_records cs" for cs
    by (simp add: extractNodes_empty)
  have "extractNodes (XNode dollar nodes) [] =
          (case dollar of None \<Rightarrow> [] | Some entries \<Rightarrow> [elementOf entries]) @
          concat (map (\<lambda>child. extractNodes child [])
                    (case nodes of None \<Rightarrow> [] | Some childNodes \<Rightarrow> childNodes))"
    unfolding m extractNodes_empty by (cases dollar; cases nodes) simp_all
  then show ?thesis
    using assms
    by (simp add: getScreenHierarchy_def execCommand_def writeIfPath_def Let_def)
qed

theorem root_node_flattened_like_any_node_witness:
  "cachedScreenHierarchy (newScreen ''emu'') = None
   \<and> map_of [(''hierarchy'', demoRoot)] ''hierarchy'' =
       Some (XNode (Some [(''rotation'', ''0'')])
              (Some [XNode (Some [(''resourceId'', ''btn1''), (''clickable'', ''true'')]) None,
                     XNode (Some [(''resourceId'', ''btn2''), (''clickable'', ''false'')]) None]))
   \<and> fst (getScreenHierarchy JSON None (newScreen ''emu'', demoWorld)) =
       Inr (Elements [elementOf [(''rotation'', ''0'')], btn1, btn2])"
proof -
  have c: "cachedScreenHierarchy (newScreen ''emu'') = None"
    by (simp add: newScreen_def)
  have a: "ADBShell demoWorld
             (''adb -s '' @ Screen.deviceId (newScreen ''emu'') @ '' exec-out uiautomator dump /dev/tty'') =
           Inr ''<dump>''"
    by (simp add: demoWorld_def newScreen_def)
  have p: "parseStringPromise demoWorld ''<dump>'' = Inr [(''hierarchy'', demoRoot)]"
    by (simp add: demoWorld_def)
  have r: "map_of [(''hierarchy'', demoRoot)] ''hierarchy'' =
       Some (XNode (Some [(''rotation'', ''0'')])
              (Some [XNode (Some [(''resourceId'', ''btn1''), (''clickable'', ''true'')]) None,
                     XNode (Some [(''resourceId'', ''btn2''), (''clickable'', ''false'')]) None]))"
    by (simp add: demoRoot_def)
  show ?thesis
    using c r root_node_flattened_like_any_node[OF c a p r]
    by (simp add: btn1_def btn2_def elementOf_def coerce_def)
qed

text \<open>
  The claim of C4 as it was stated fails on the example screen: the root tag
  \<open>hierarchy\<close> carries the attribute \<open>rotation\<close>, and its record is in the
  flattened hierarchy, ahead of the two buttons.
\<close>

theorem root_record_emitted_counterexample:
  "fst (getScreenHierarchy JSON None (newScreen ''emu'', demoWorld)) =
     Inr (Elements [[(''rotation'', JStr ''0'')], btn1, btn2])"
  using demo_getScreenHierarchy by simp

end
